theory Spec2Isabelle
  imports Main "HOL-Library.Sublist"
begin

section \<open>JavaScript strings\<close>

text \<open>
  A JavaScript string is a sequence of UTF-16 code units.  A code unit is modelled by its
  number; the literals of the program are ASCII and are written with \<open>js\<close>.
\<close>

type_synonym jsstring = "nat list"

definition js :: "string \<Rightarrow> jsstring" where
  "js s = map of_char s"

text \<open>
  The characters removed by \<^verbatim>\<open>String.prototype.trim\<close> and matched by the regular
  expression class \<^verbatim>\<open>\s\<close>: the WhiteSpace and LineTerminator code points of ECMAScript
  (TAB, LF, VT, FF, CR, SP, NBSP, U+1680, U+2000..U+200A, U+2028, U+2029, U+202F, U+205F,
  U+3000, U+FEFF).
\<close>

definition isWhiteSpace :: "nat \<Rightarrow> bool" where
  "isWhiteSpace c \<longleftrightarrow>
     (9 \<le> c \<and> c \<le> 13) \<or> c = 32 \<or> c = 160 \<or> c = 5760 \<or> (8192 \<le> c \<and> c \<le> 8202) \<or>
     c = 8232 \<or> c = 8233 \<or> c = 8239 \<or> c = 8287 \<or> c = 12288 \<or> c = 65279"

definition trim :: "jsstring \<Rightarrow> jsstring" where
  "trim s = rev (dropWhile isWhiteSpace (rev (dropWhile isWhiteSpace s)))"

definition startsWith :: "jsstring \<Rightarrow> jsstring \<Rightarrow> bool" where
  "startsWith s p \<longleftrightarrow> prefix p s"

definition endsWith :: "jsstring \<Rightarrow> jsstring \<Rightarrow> bool" where
  "endsWith s p \<longleftrightarrow> suffix p s"

text \<open>
  \<^verbatim>\<open>s.lastIndexOf(pat)\<close>: the largest index at which \<open>pat\<close> occurs in \<open>s\<close>, or \<open>-1\<close>.
  The search runs from the end of the string down to index 0.
\<close>

fun lastIndexFrom :: "jsstring \<Rightarrow> jsstring \<Rightarrow> nat \<Rightarrow> int" where
  "lastIndexFrom s pat 0 = (if prefix pat s then 0 else - 1)"
| "lastIndexFrom s pat (Suc i) =
     (if prefix pat (drop (Suc i) s) then int (Suc i) else lastIndexFrom s pat i)"

definition lastIndexOf :: "jsstring \<Rightarrow> jsstring \<Rightarrow> int" where
  "lastIndexOf s pat = lastIndexFrom s pat (length s)"

text \<open>
  \<^verbatim>\<open>s.substring(start)\<close> and \<^verbatim>\<open>s.substring(start, end)\<close>: arguments below 0 count as
  0, arguments beyond the length as the length, and the two are swapped when the first is
  the larger.
\<close>

definition clampIndex :: "jsstring \<Rightarrow> int \<Rightarrow> nat" where
  "clampIndex s i = min (nat i) (length s)"

definition substring :: "jsstring \<Rightarrow> int \<Rightarrow> int \<Rightarrow> jsstring" where
  "substring s start end =
     (let a = clampIndex s start; b = clampIndex s end
      in take (max a b - min a b) (drop (min a b) s))"

definition substringFrom :: "jsstring \<Rightarrow> int \<Rightarrow> jsstring" where
  "substringFrom s start = drop (clampIndex s start) s"

text \<open>
  \<^verbatim>\<open>String.prototype.toLowerCase\<close> follows the Unicode case tables of the runtime, which
  are not part of the repository: the parser takes the function as its parameter \<open>lc\<close>.
  \<open>toLowerCaseBasic\<close> below is the builtin on strings whose code units are below U+0100 or equal
  to U+0130: the letters A-Z, U+00C0..U+00D6 and U+00D8..U+00DE move up by 32, LATIN CAPITAL
  LETTER I WITH DOT ABOVE (U+0130) becomes the two code units U+0069 U+0307 (SpecialCasing),
  every other code unit of that range stays.
\<close>

definition lowerUnit :: "nat \<Rightarrow> jsstring" where
  "lowerUnit c =
     (if (65 \<le> c \<and> c \<le> 90) \<or> (192 \<le> c \<and> c \<le> 222 \<and> c \<noteq> 215) then [c + 32]
      else if c = 304 then [105, 775]
      else [c])"

definition toLowerCaseBasic :: "jsstring \<Rightarrow> jsstring" where
  "toLowerCaseBasic s = concat (map lowerUnit s)"

section \<open>The command parser (src/utils.ts)\<close>

datatype Command = CmdAdd jsstring "jsstring option" | CmdList | CmdNone

text \<open>
  The regular expression \<^verbatim>\<open>/^\s*(add task|add|create)\s+/i\<close> of \<open>parseCommand\<close>.  Without
  the \<^verbatim>\<open>u\<close> flag, case-insensitive matching compares canonicalised code units, and a
  letter a-z of the pattern matches exactly itself and its ASCII capital.
\<close>

definition matchesIgnoreCase :: "nat \<Rightarrow> nat \<Rightarrow> bool" where
  "matchesIgnoreCase p c \<longleftrightarrow> c = p \<or> (97 \<le> p \<and> p \<le> 122 \<and> c + 32 = p)"

text \<open>
  One alternative of the group followed by \<^verbatim>\<open>\s+\<close>: the keyword, then at least one white
  space character; the greedy \<^verbatim>\<open>\s+\<close> takes the whole run.  The result is the text after
  the match.
\<close>

definition matchKeyword :: "jsstring \<Rightarrow> jsstring \<Rightarrow> jsstring option" where
  "matchKeyword kw s =
     (let n = length kw; rest = drop n s
      in if n \<le> length s \<and> list_all2 matchesIgnoreCase kw (take n s) \<and>
            rest \<noteq> [] \<and> isWhiteSpace (hd rest)
         then Some (dropWhile isWhiteSpace rest) else None)"

text \<open>
  \<^verbatim>\<open>trimmed.replace(/^\s*(add task|add|create)\s+/i, "")\<close>: the alternatives are tried in
  the order written, each with the \<^verbatim>\<open>\s+\<close> that follows; a string the expression does
  not match is returned as it is.
\<close>

definition stripKeyword :: "jsstring \<Rightarrow> jsstring" where
  "stripKeyword s =
     (let t = dropWhile isWhiteSpace s
      in case matchKeyword (js ''add task'') t of Some r \<Rightarrow> r
         | None \<Rightarrow> (case matchKeyword (js ''add'') t of Some r \<Rightarrow> r
         | None \<Rightarrow> (case matchKeyword (js ''create'') t of Some r \<Rightarrow> r
         | None \<Rightarrow> s)))"

text \<open>
  The date extraction of \<open>parseCommand\<close> (the block after the keyword has been removed):
  the candidate title and the due date as the source computes them, before the emptiness
  test on the title.
\<close>

definition splitDueDate :: "(jsstring \<Rightarrow> jsstring) \<Rightarrow> jsstring \<Rightarrow> jsstring \<times> jsstring option" where
  "splitDueDate lc remainder =
     (let byIndex = lastIndexOf (lc remainder) (js '' by '');
          onIndex = lastIndexOf (lc remainder) (js '' on '');
          idx = max byIndex onIndex;
          keywordLength = (if byIndex > onIndex then 4 else 4);
          due = (if idx \<ge> 0 then Some (trim (substringFrom remainder (idx + keywordLength)))
                 else None);
          remainder' = (if idx \<ge> 0 then trim (substring remainder 0 idx) else remainder)
      in (trim remainder', due))"

definition isListCommand :: "jsstring \<Rightarrow> bool" where
  "isListCommand lower \<longleftrightarrow>
     lower = js ''list'' \<or> lower = js ''list tasks'' \<or> startsWith lower (js ''show tasks'')"

definition isAddCommand :: "jsstring \<Rightarrow> bool" where
  "isAddCommand lower \<longleftrightarrow>
     startsWith lower (js ''add '') \<or> startsWith lower (js ''add task '') \<or>
     startsWith lower (js ''create '')"

definition parseCommand :: "(jsstring \<Rightarrow> jsstring) \<Rightarrow> jsstring \<Rightarrow> Command" where
  "parseCommand lc message =
     (let trimmed = trim message;
          lower = lc trimmed
      in if isListCommand lower then CmdList
         else if isAddCommand lower then
           (case splitDueDate lc (stripKeyword trimmed) of
              (ttl, due) \<Rightarrow>
                if length ttl = 0 then CmdNone
                else CmdAdd ttl (case due of None \<Rightarrow> None
                                 | Some d \<Rightarrow> if d = [] then None else Some d))
         else CmdNone)"

section \<open>Values, requests and responses\<close>

text \<open>
  The values \<^verbatim>\<open>JSON.parse\<close> produces, and \<^verbatim>\<open>undefined\<close>.  A number is represented by
  its rendering \<^verbatim>\<open>String(n)\<close>, which is all the program observes of it; an object by its
  own properties.
\<close>

datatype jsval =
    JUndefined
  | JNull
  | JBool bool
  | JNum jsstring
  | JStr jsstring
  | JArr "jsval list"
  | JObj "(jsstring \<times> jsval) list"

datatype exn = SyntaxError | TypeError | ServiceError jsstring

text \<open>
  Reading a property, \<^verbatim>\<open>v.k\<close>, for the names the program uses (\<open>userId\<close>, \<open>message\<close>,
  \<open>title\<close>, \<open>dueDate\<close>, \<open>response\<close>, \<open>choices\<close>, \<open>content\<close>): none of them is defined by a
  prototype, so the value is the own property of an object and \<^verbatim>\<open>undefined\<close> elsewhere;
  on \<^verbatim>\<open>null\<close> and \<^verbatim>\<open>undefined\<close> the access throws.
\<close>

definition getProp :: "jsval \<Rightarrow> jsstring \<Rightarrow> exn + jsval" where
  "getProp v k =
     (case v of
        JUndefined \<Rightarrow> Inl TypeError
      | JNull \<Rightarrow> Inl TypeError
      | JObj members \<Rightarrow> Inr (case map_of members k of Some x \<Rightarrow> x | None \<Rightarrow> JUndefined)
      | _ \<Rightarrow> Inr JUndefined)"

text \<open>\<^verbatim>\<open>v[0]\<close>: the first element of an array, the first code unit of a string.\<close>

definition getIndex0 :: "jsval \<Rightarrow> exn + jsval" where
  "getIndex0 v =
     (case v of
        JUndefined \<Rightarrow> Inl TypeError
      | JNull \<Rightarrow> Inl TypeError
      | JArr xs \<Rightarrow> Inr (case xs of [] \<Rightarrow> JUndefined | x # _ \<Rightarrow> x)
      | JStr s \<Rightarrow> Inr (case s of [] \<Rightarrow> JUndefined | c # _ \<Rightarrow> JStr [c])
      | JObj members \<Rightarrow> Inr (case map_of members (js ''0'') of Some x \<Rightarrow> x | None \<Rightarrow> JUndefined)
      | _ \<Rightarrow> Inr JUndefined)"

definition nullish :: "jsval \<Rightarrow> bool" where
  "nullish v \<longleftrightarrow> v = JUndefined \<or> v = JNull"

text \<open>Truthiness: \<^verbatim>\<open>undefined\<close>, \<^verbatim>\<open>null\<close>, \<^verbatim>\<open>false\<close>, zero, NaN and the empty string
  are falsy.\<close>

fun truthy :: "jsval \<Rightarrow> bool" where
  "truthy JUndefined = False"
| "truthy JNull = False"
| "truthy (JBool b) = b"
| "truthy (JNum n) = (n \<noteq> js ''0'' \<and> n \<noteq> js ''NaN'')"
| "truthy (JStr s) = (s \<noteq> [])"
| "truthy (JArr xs) = True"
| "truthy (JObj members) = True"

text \<open>
  \<^verbatim>\<open>String(v)\<close>, and the conversion a template literal applies.  An array is joined with
  commas, its \<^verbatim>\<open>null\<close> elements rendered empty.  An object goes through its \<open>toString\<close>
  method: the one of \<open>Object.prototype\<close> gives \<open>[object Object]\<close>, but an own property
  \<open>toString\<close> hides it, holds a value that is not callable, and the conversion throws a
  TypeError.
\<close>

fun toStr :: "jsval \<Rightarrow> exn + jsstring"
  and joinElems :: "jsval list \<Rightarrow> exn + jsstring" where
  "toStr JUndefined = Inr (js ''undefined'')"
| "toStr JNull = Inr (js ''null'')"
| "toStr (JBool b) = Inr (if b then js ''true'' else js ''false'')"
| "toStr (JNum n) = Inr n"
| "toStr (JStr s) = Inr s"
| "toStr (JArr xs) = joinElems xs"
| "toStr (JObj members) =
     (if map_of members (js ''toString'') \<noteq> None then Inl TypeError
      else Inr (js ''[object Object]''))"
| "joinElems [] = Inr []"
| "joinElems (x # xs) =
     (case (if x = JUndefined \<or> x = JNull then Inr [] else toStr x) of
        Inl e \<Rightarrow> Inl e
      | Inr a \<Rightarrow>
          (if xs = [] then Inr a
           else case joinElems xs of Inl e \<Rightarrow> Inl e | Inr b \<Rightarrow> Inr (a @ js '','' @ b)))"

text \<open>The decimal numeral of a natural number, as \<^verbatim>\<open>String\<close> renders a list position.\<close>

fun showNat :: "nat \<Rightarrow> jsstring" where
  "showNat n = (if n < 10 then [48 + n] else showNat (n div 10) @ [48 + n mod 10])"

record Request =
  reqMethod :: jsstring
  url :: jsstring
  json :: "jsval option"

text \<open>
  \<open>json\<close> is what \<^verbatim>\<open>await request.json()\<close> yields: \<open>None\<close> when the body is not JSON text
  and the call throws a SyntaxError.

  A response body is the static page \<open>HTML_PAGE\<close>, a plain text, or JSON text: \<open>Json v\<close>
  stands for \<^verbatim>\<open>JSON.stringify(v)\<close>, and \<open>ReplyStringified r\<close> for
  \<^verbatim>\<open>JSON.stringify({ reply: JSON.stringify(r) })\<close>.
\<close>

datatype body = StaticPage | Text jsstring | Json jsval | ReplyStringified jsval

record Response =
  status :: nat
  headers :: "(jsstring \<times> jsstring) list"
  body :: body

text \<open>
  \<^verbatim>\<open>await response.json()\<close>.  None of the plain texts the program sends is JSON.
\<close>

definition Response_json :: "Response \<Rightarrow> exn + jsval" where
  "Response_json r =
     (case body r of
        Json v \<Rightarrow> Inr v
      | ReplyStringified v \<Rightarrow> Inl SyntaxError
      | Text t \<Rightarrow> Inl SyntaxError
      | StaticPage \<Rightarrow> Inl SyntaxError)"

definition jsonHeaders :: "(jsstring \<times> jsstring) list" where
  "jsonHeaders = [(js ''Content-Type'', js ''application/json'')]"

text \<open>
  The builtins of the runtime whose definition is outside the repository: the lower-casing of
  strings and the URL parser (\<^verbatim>\<open>new URL(u).pathname\<close>).
\<close>

record Runtime =
  toLowerCase :: "jsstring \<Rightarrow> jsstring"
  URL_pathname :: "jsstring \<Rightarrow> jsstring"

text \<open>
  The pathname of a URL of the shape \<open>scheme://host/path?query#fragment\<close> whose path the
  parser keeps as written (no dot segments, no backslashes, nothing to percent-encode).
\<close>

definition pathnameBasic :: "jsstring \<Rightarrow> jsstring" where
  "pathnameBasic u =
     (let afterScheme = drop 3 (dropWhile (\<lambda>c. c \<noteq> 58) u);
          fromPath = dropWhile (\<lambda>c. c \<noteq> 47 \<and> c \<noteq> 63 \<and> c \<noteq> 35) afterScheme;
          p = takeWhile (\<lambda>c. c \<noteq> 63 \<and> c \<noteq> 35) fromPath
      in if p = [] then js ''/'' else p)"

definition basicRuntime :: Runtime where
  "basicRuntime = \<lparr>toLowerCase = toLowerCaseBasic, URL_pathname = pathnameBasic\<rparr>"

section \<open>The per-user task store (class TaskManager)\<close>

record Task =
  taskId :: jsstring
  title :: jsstring
  dueDate :: "jsstring option"
  createdAt :: jsstring

text \<open>The durable storage of one object: a map from keys to the stored task arrays.\<close>

type_synonym storage = "jsstring \<rightharpoonup> Task list"

definition emptyStorage :: storage where
  "emptyStorage = Map.empty"

text \<open>\<^verbatim>\<open>(await this.state.storage.get("tasks")) || []\<close>\<close>

definition storedTasks :: "storage \<Rightarrow> Task list" where
  "storedTasks st = (case st (js ''tasks'') of Some ts \<Rightarrow> ts | None \<Rightarrow> [])"

text \<open>The object \<^verbatim>\<open>JSON.stringify\<close> writes for a task: a due date that is
  \<^verbatim>\<open>undefined\<close> is left out.\<close>

definition taskJson :: "Task \<Rightarrow> jsval" where
  "taskJson t =
     JObj ([(js ''id'', JStr (taskId t)), (js ''title'', JStr (title t))] @
           (case dueDate t of Some d \<Rightarrow> [(js ''dueDate'', JStr d)] | None \<Rightarrow> []) @
           [(js ''createdAt'', JStr (createdAt t))])"

text \<open>
  \<open>TaskManager.fetch\<close>.  \<open>uuid\<close> and \<open>now\<close> are what \<^verbatim>\<open>crypto.randomUUID()\<close> and
  \<^verbatim>\<open>new Date().toISOString()\<close> return during the call.  The result is the exception
  thrown, or the response with the storage after the call.
\<close>

definition TaskManager_fetch ::
  "Runtime \<Rightarrow> jsstring \<Rightarrow> jsstring \<Rightarrow> Request \<Rightarrow> storage \<Rightarrow> exn + (Response \<times> storage)" where
  "TaskManager_fetch rt uuid now request st =
     (let path = URL_pathname rt (url request);
          tasks = storedTasks st
      in if reqMethod request = js ''POST'' \<and> endsWith path (js ''/add'') then
           (case json request of
              None \<Rightarrow> Inl SyntaxError
            | Some b \<Rightarrow>
           (case getProp b (js ''title'') of
              Inl e \<Rightarrow> Inl e
            | Inr ttl \<Rightarrow>
           (case getProp b (js ''dueDate'') of
              Inl e \<Rightarrow> Inl e
            | Inr due \<Rightarrow>
           (case toStr ttl of
              Inl e \<Rightarrow> Inl e
            | Inr t \<Rightarrow>
           (case (if truthy due then map_sum id Some (toStr due) else Inr None) of
              Inl e \<Rightarrow> Inl e
            | Inr d \<Rightarrow>
                let task = \<lparr>taskId = uuid, title = t, dueDate = d, createdAt = now\<rparr>;
                    tasks' = tasks @ [task]
                in Inr (\<lparr>status = 201, headers = jsonHeaders, body = Json (taskJson task)\<rparr>,
                        st(js ''tasks'' \<mapsto> tasks')))))))
         else if reqMethod request = js ''GET'' \<and> endsWith path (js ''/list'') then
           Inr (\<lparr>status = 200, headers = jsonHeaders, body = Json (JArr (map taskJson tasks))\<rparr>, st)
         else Inr (\<lparr>status = 404, headers = [], body = Text (js ''Not found'')\<rparr>, st))"

section \<open>The Worker (src/index.ts)\<close>

definition SYSTEM_PROMPT :: jsstring where
  "SYSTEM_PROMPT =
     js ''You are a friendly AI assistant that helps users manage their to'' @ [8209] @
     js ''do tasks.  '' @ [10] @
     js ''You can perform the following actions when prompted:'' @ [10] @
     js ''* Add a task to the user'' @ [8217] @
     js ''s list when they say things like '' @ [8220] @
     js ''add buy groceries by Friday'' @ [8221] @ js ''.'' @ [10] @
     js ''* List the current tasks when asked to '' @ [8220] @ js ''list tasks'' @ [8221] @
     js '' or similar.'' @ [10] @
     js ''For unrecognised queries respond conversationally and offer to help manage tasks.  '' @
     js ''Do not invent tasks on the user'' @ [8217] @ js ''s behalf.''"

text \<open>
  The identifier of a Durable Object.  \<^verbatim>\<open>idFromName\<close> belongs to the platform, which gives
  the same identifier for the same name and different identifiers for different names; the
  identifier is modelled as the name it was derived from.
\<close>

datatype DurableObjectId = IdFromName jsstring

text \<open>
  What the Worker does to the world outside it: the requests it sends to a store object, the
  calls of the hosted model, and the error it logs.
\<close>

datatype effect =
    StubFetch DurableObjectId Request
  | AIRun jsstring "(jsstring \<times> jsstring) list"
  | ConsoleError jsstring exn

text \<open>
  The bindings: \<open>AI\<close> answers a model name and a list of messages (role, content) with a
  result or throws; \<open>TASK_MANAGER\<close> holds the storage of every store object; \<open>effects\<close>
  records, in order, what has been done through the bindings.
\<close>

record Env =
  AI :: "jsstring \<Rightarrow> (jsstring \<times> jsstring) list \<Rightarrow> exn + jsval"
  TASK_MANAGER :: "DurableObjectId \<Rightarrow> storage"
  effects :: "effect list"

text \<open>
  \<^verbatim>\<open>await stub.fetch(...)\<close>: the store object \<open>stubId\<close> serves the request on its own
  storage.  An exception of the store leaves its storage as it was (the store writes as its
  last step) and is thrown to the caller.
\<close>

definition stub_fetch ::
  "Runtime \<Rightarrow> jsstring \<Rightarrow> jsstring \<Rightarrow> DurableObjectId \<Rightarrow> Request \<Rightarrow> Env \<Rightarrow> (exn + Response) \<times> Env" where
  "stub_fetch rt uuid now stubId request env =
     (let env1 = env\<lparr>effects := effects env @ [StubFetch stubId request]\<rparr>
      in case TaskManager_fetch rt uuid now request (TASK_MANAGER env stubId) of
           Inl e \<Rightarrow> (Inl e, env1)
         | Inr (response, st') \<Rightarrow>
             (Inr response, env1\<lparr>TASK_MANAGER := (TASK_MANAGER env)(stubId := st')\<rparr>))"

text \<open>The two requests the Worker sends to a store; \<^verbatim>\<open>JSON.stringify\<close> leaves a due date
  that is \<^verbatim>\<open>undefined\<close> out of the body.\<close>

definition storeUrl :: "jsstring \<Rightarrow> jsstring \<Rightarrow> jsstring" where
  "storeUrl userId action = js ''https://task/'' @ userId @ js ''/'' @ action"

definition addRequest :: "jsstring \<Rightarrow> jsstring \<Rightarrow> jsstring option \<Rightarrow> Request" where
  "addRequest userId ttl due =
     \<lparr>reqMethod = js ''POST'', url = storeUrl userId (js ''add''),
      json = Some (JObj ((js ''title'', JStr ttl) #
                         (case due of Some d \<Rightarrow> [(js ''dueDate'', JStr d)] | None \<Rightarrow> [])))\<rparr>"

definition listRequest :: "jsstring \<Rightarrow> Request" where
  "listRequest userId = \<lparr>reqMethod = js ''GET'', url = storeUrl userId (js ''list''), json = None\<rparr>"

text \<open>The confirmation of an add:
  \<^verbatim>\<open>`Added task "${cmd.title}"${cmd.dueDate ? ` due by ${cmd.dueDate}` : ''}.`\<close>\<close>

definition addedReply :: "jsstring \<Rightarrow> jsstring option \<Rightarrow> jsstring" where
  "addedReply ttl due =
     js ''Added task '' @ [34] @ ttl @ [34] @
     (case due of
        Some d \<Rightarrow> if d \<noteq> [] then js '' due by '' @ d else []
      | None \<Rightarrow> []) @
     js ''.''"

text \<open>One line of the list reply:
  \<^verbatim>\<open>`${idx + 1}. ${t.title}${t.dueDate ? ` (due ${t.dueDate})` : ''}`\<close>\<close>

definition taskLine :: "nat \<Rightarrow> jsval \<Rightarrow> exn + jsstring" where
  "taskLine idx t =
     (case getProp t (js ''title'') of
        Inl e \<Rightarrow> Inl e
      | Inr ttl \<Rightarrow>
     (case toStr ttl of
        Inl e \<Rightarrow> Inl e
      | Inr a \<Rightarrow>
     (case getProp t (js ''dueDate'') of
        Inl e \<Rightarrow> Inl e
      | Inr due \<Rightarrow>
          if truthy due then
            (case toStr due of
               Inl e \<Rightarrow> Inl e
             | Inr d \<Rightarrow> Inr (showNat (idx + 1) @ js ''. '' @ a @ js '' (due '' @ d @ js '')''))
          else Inr (showNat (idx + 1) @ js ''. '' @ a))))"

fun taskLines :: "nat \<Rightarrow> jsval list \<Rightarrow> exn + jsstring list" where
  "taskLines idx [] = Inr []"
| "taskLines idx (t # ts) =
     (case taskLine idx t of
        Inl e \<Rightarrow> Inl e
      | Inr l \<Rightarrow> (case taskLines (Suc idx) ts of Inl e \<Rightarrow> Inl e | Inr ls \<Rightarrow> Inr (l # ls)))"

fun joinLines :: "jsstring list \<Rightarrow> jsstring" where
  "joinLines [] = []"
| "joinLines [l] = l"
| "joinLines (l # ls) = l @ [10] @ joinLines ls"

definition listReply :: "jsval \<Rightarrow> exn + jsstring" where
  "listReply tasks =
     (case tasks of
        JArr ts \<Rightarrow>
          if length ts > 0 then
            (case taskLines 0 ts of Inl e \<Rightarrow> Inl e | Inr ls \<Rightarrow> Inr (joinLines ls))
          else Inr (js ''You have no tasks.'')
      | _ \<Rightarrow> Inr (js ''You have no tasks.''))"

text \<open>\<^verbatim>\<open>a?.k\<close> and \<^verbatim>\<open>a?.[0]\<close>\<close>

definition optProp :: "jsval \<Rightarrow> jsstring \<Rightarrow> jsval" where
  "optProp v k = (case getProp v k of Inl e \<Rightarrow> JUndefined | Inr x \<Rightarrow> x)"

definition optIndex0 :: "jsval \<Rightarrow> jsval" where
  "optIndex0 v = (case getIndex0 v of Inl e \<Rightarrow> JUndefined | Inr x \<Rightarrow> x)"

text \<open>
  The body of the success response of the model path:
  \<^verbatim>\<open>typeof result === "string" ? result : (result.response ?? result?.choices?.[0]?.message?.content ?? JSON.stringify(result))\<close>
  wrapped as \<^verbatim>\<open>JSON.stringify({ reply })\<close>.  Reading \<open>response\<close> from \<^verbatim>\<open>null\<close> or
  \<^verbatim>\<open>undefined\<close> throws.
\<close>

definition replyBody :: "jsval \<Rightarrow> exn + body" where
  "replyBody result =
     (case result of
        JStr s \<Rightarrow> Inr (Json (JObj [(js ''reply'', JStr s)]))
      | _ \<Rightarrow>
        (case getProp result (js ''response'') of
           Inl e \<Rightarrow> Inl e
         | Inr r \<Rightarrow>
             if \<not> nullish r then Inr (Json (JObj [(js ''reply'', r)]))
             else
               (let c = optProp (optProp (optIndex0 (optProp result (js ''choices''))) (js ''message''))
                          (js ''content'')
                in if \<not> nullish c then Inr (Json (JObj [(js ''reply'', c)]))
                   else Inr (ReplyStringified result))))"

definition MODEL :: jsstring where
  "MODEL = js ''@cf/meta/llama-3.3-70b-instruct-fp8-fast''"

definition UNAVAILABLE :: jsstring where
  "UNAVAILABLE = js ''The AI model is currently unavailable. Please try again later.''"

text \<open>
  The body of the outer \<^verbatim>\<open>try\<close> block of the chat endpoint: the exception that reaches
  the outer \<^verbatim>\<open>catch\<close>, or the response returned, with the bindings after the call.
\<close>

definition handleChat ::
  "Runtime \<Rightarrow> jsstring \<Rightarrow> jsstring \<Rightarrow> Request \<Rightarrow> Env \<Rightarrow> (exn + Response) \<times> Env" where
  "handleChat rt uuid now request env =
     (case json request of
        None \<Rightarrow> (Inl SyntaxError, env)
      | Some b \<Rightarrow>
     (case getProp b (js ''userId'') of
        Inl e \<Rightarrow> (Inl e, env)
      | Inr userId \<Rightarrow>
     (case getProp b (js ''message'') of
        Inl e \<Rightarrow> (Inl e, env)
      | Inr message \<Rightarrow>
     (case (userId, message) of
        (JStr uid, JStr msg) \<Rightarrow>
          (let cmd = parseCommand (toLowerCase rt) msg;
               stubId = IdFromName uid
           in case cmd of
                CmdAdd ttl due \<Rightarrow>
                  (case stub_fetch rt uuid now stubId (addRequest uid ttl due) env of
                     (Inl e, env') \<Rightarrow> (Inl e, env')
                   | (Inr r, env') \<Rightarrow>
                       (Inr \<lparr>status = 200, headers = jsonHeaders,
                             body = Json (JObj [(js ''reply'', JStr (addedReply ttl due))])\<rparr>, env'))
              | CmdList \<Rightarrow>
                  (case stub_fetch rt uuid now stubId (listRequest uid) env of
                     (Inl e, env') \<Rightarrow> (Inl e, env')
                   | (Inr listRes, env') \<Rightarrow>
                  (case Response_json listRes of
                     Inl e \<Rightarrow> (Inl e, env')
                   | Inr tasks \<Rightarrow>
                  (case listReply tasks of
                     Inl e \<Rightarrow> (Inl e, env')
                   | Inr reply \<Rightarrow>
                       (Inr \<lparr>status = 200, headers = jsonHeaders,
                             body = Json (JObj [(js ''reply'', JStr reply), (js ''tasks'', tasks)])\<rparr>,
                        env'))))
              | CmdNone \<Rightarrow>
                  (let messages = [(js ''system'', SYSTEM_PROMPT), (js ''user'', msg)];
                       env1 = env\<lparr>effects := effects env @ [AIRun MODEL messages]\<rparr>
                   in case (case AI env MODEL messages of
                              Inl e \<Rightarrow> Inl e
                            | Inr result \<Rightarrow> replyBody result) of
                        Inr b \<Rightarrow> (Inr \<lparr>status = 200, headers = jsonHeaders, body = b\<rparr>, env1)
                      | Inl err \<Rightarrow>
                          (Inr \<lparr>status = 503, headers = jsonHeaders,
                                body = Json (JObj [(js ''reply'', JStr UNAVAILABLE)])\<rparr>,
                           env1\<lparr>effects := effects env1 @
                                   [ConsoleError (js ''AI model invocation failed'') err]\<rparr>)))
      | _ \<Rightarrow>
          (Inr \<lparr>status = 400, headers = [], body = Text (js ''Invalid request body'')\<rparr>, env)))))"

text \<open>The \<open>fetch\<close> handler of the Worker.\<close>

definition fetch :: "Runtime \<Rightarrow> jsstring \<Rightarrow> jsstring \<Rightarrow> Request \<Rightarrow> Env \<Rightarrow> Response \<times> Env" where
  "fetch rt uuid now request env =
     (let pathname = URL_pathname rt (url request)
      in if pathname = js ''/'' \<and> reqMethod request = js ''GET'' then
           (\<lparr>status = 200, headers = [(js ''Content-Type'', js ''text/html; charset=utf-8'')],
             body = StaticPage\<rparr>, env)
         else if pathname = js ''/api/chat'' \<and> reqMethod request = js ''POST'' then
           (case handleChat rt uuid now request env of
              (Inr response, env') \<Rightarrow> (response, env')
            | (Inl err, env') \<Rightarrow>
                (\<lparr>status = 400, headers = [], body = Text (js ''Bad Request'')\<rparr>, env'))
         else (\<lparr>status = 404, headers = [], body = Text (js ''Not found'')\<rparr>, env))"

section \<open>Sequences of store operations, sample bindings and requests\<close>

text \<open>
  The store operation \<open>add(title, dueDate)\<close> is the request \<open>addRequest\<close> served by the
  store; \<open>addAll\<close> performs a list of them in order on one storage, each with the identifier
  and the time stamp the runtime hands out for it.
\<close>

fun addAll ::
  "Runtime \<Rightarrow> jsstring \<Rightarrow> (jsstring \<times> jsstring \<times> jsstring \<times> jsstring option) list \<Rightarrow> storage
     \<Rightarrow> exn + storage" where
  "addAll rt userId [] st = Inr st"
| "addAll rt userId ((uuid, now, ttl, due) # xs) st =
     (case TaskManager_fetch rt uuid now (addRequest userId ttl due) st of
        Inl e \<Rightarrow> Inl e
      | Inr (r, st') \<Rightarrow> addAll rt userId xs st')"

text \<open>The task such an add creates; an empty due date is falsy and is stored as absent.\<close>

fun newTask :: "jsstring \<times> jsstring \<times> jsstring \<times> jsstring option \<Rightarrow> Task" where
  "newTask (uuid, now, ttl, due) =
     \<lparr>taskId = uuid, title = ttl, dueDate = (if due = Some [] then None else due),
      createdAt = now\<rparr>"

fun titleOf :: "jsstring \<times> jsstring \<times> jsstring \<times> jsstring option \<Rightarrow> jsstring" where
  "titleOf (uuid, now, ttl, due) = ttl"

text \<open>The \<open>ok\<close> attribute of a response: the status is a success status, 200 to 299.\<close>

definition Response_ok :: "Response \<Rightarrow> bool" where
  "Response_ok r \<longleftrightarrow> 200 \<le> status r \<and> status r \<le> 299"

text \<open>The request the chat page sends: \<^verbatim>\<open>JSON.stringify({ userId, message })\<close> posted to
  \<open>/api/chat\<close>.\<close>

definition chatRequest :: "jsval \<Rightarrow> jsval \<Rightarrow> Request" where
  "chatRequest userId message =
     \<lparr>reqMethod = js ''POST'', url = js ''https://tasks.example/api/chat'',
      json = Some (JObj [(js ''userId'', userId), (js ''message'', message)])\<rparr>"

text \<open>Bindings in which no store holds anything yet and the hosted model is out of service.\<close>

definition failingAI :: "jsstring \<Rightarrow> (jsstring \<times> jsstring) list \<Rightarrow> exn + jsval" where
  "failingAI model messages = Inl (ServiceError (js ''upstream unavailable''))"

definition emptyNamespace :: "DurableObjectId \<Rightarrow> storage" where
  "emptyNamespace stubId = emptyStorage"

definition failingEnv :: Env where
  "failingEnv = \<lparr>AI = failingAI, TASK_MANAGER = emptyNamespace, effects = []\<rparr>"

section \<open>Properties of the parser\<close>

lemmas parse_eval =
  parseCommand_def js_def trim_def isWhiteSpace_def toLowerCaseBasic_def lowerUnit_def
  isListCommand_def isAddCommand_def startsWith_def stripKeyword_def matchKeyword_def
  matchesIgnoreCase_def splitDueDate_def lastIndexOf_def substring_def substringFrom_def
  clampIndex_def Let_def

lemma trim_ends:
  assumes "trim s \<noteq> []"
  shows "\<not> isWhiteSpace (hd (trim s))" and "\<not> isWhiteSpace (last (trim s))"
proof -
  let ?t = "dropWhile isWhiteSpace s"
  let ?u = "dropWhile isWhiteSpace (rev ?t)"
  from assms have u: "?u \<noteq> []" by (simp add: trim_def)
  have "?t = [] \<Longrightarrow> ?u = []" by (simp only: rev.simps dropWhile.simps)
  with u have t: "?t \<noteq> []" by blast
  have "last (trim s) = hd ?u" using u by (simp add: trim_def last_rev)
  moreover have "\<not> isWhiteSpace (hd ?u)" using u by (rule hd_dropWhile)
  ultimately show "\<not> isWhiteSpace (last (trim s))" by simp
  have "suffix ?u (rev ?t)" by (rule suffix_dropWhile)
  then obtain ps where ps: "rev ?t = ps @ ?u" by (auto simp: suffix_def)
  then have "last (rev ?t) = last ?u" using u by (metis last_appendR)
  then have "hd (trim s) = hd ?t" using u t by (simp add: trim_def hd_rev last_rev)
  moreover have "\<not> isWhiteSpace (hd ?t)" using t by (rule hd_dropWhile)
  ultimately show "\<not> isWhiteSpace (hd (trim s))" by simp
qed

lemma trim_sublist: "sublist (trim s) s"
proof -
  let ?t = "dropWhile isWhiteSpace s"
  have "suffix (dropWhile isWhiteSpace (rev ?t)) (rev ?t)" by (rule suffix_dropWhile)
  then have "prefix (trim s) ?t" by (simp add: trim_def suffix_to_prefix)
  moreover have "suffix ?t s" by (rule suffix_dropWhile)
  ultimately show ?thesis
    by (meson prefix_imp_sublist suffix_imp_sublist sublist_order.order_trans)
qed

lemma matchKeyword_suffix: "matchKeyword kw s = Some r \<Longrightarrow> suffix r s"
  by (auto simp: matchKeyword_def Let_def split: if_splits
      intro: suffix_order.order_trans [OF suffix_dropWhile suffix_drop])

lemma stripKeyword_suffix: "suffix (stripKeyword s) s"
  by (auto simp: stripKeyword_def Let_def split: option.splits
      dest!: matchKeyword_suffix intro: suffix_order.order_trans [OF _ suffix_dropWhile])

lemma substring0_prefix: "prefix (substring s 0 i) s"
  by (simp add: substring_def clampIndex_def Let_def take_is_prefix)

lemma substringFrom_suffix: "suffix (substringFrom s i) s"
  by (simp add: substringFrom_def suffix_drop)

lemma splitDueDate_sublist:
  assumes "splitDueDate lc r = (t, d)"
  shows "sublist t r" and "\<And>x. d = Some x \<Longrightarrow> sublist x r"
proof -
  have a: "sublist (trim (trim (substring r 0 i))) r" for i
    by (meson trim_sublist substring0_prefix prefix_imp_sublist sublist_order.order_trans)
  have b: "sublist (trim r) r" by (rule trim_sublist)
  show "sublist t r" using assms a b
    by (auto simp: splitDueDate_def Let_def split: if_splits)
  have c: "sublist (trim (substringFrom r i)) r" for i
    by (meson trim_sublist substringFrom_suffix suffix_imp_sublist sublist_order.order_trans)
  show "sublist x r" if "d = Some x" for x
    using assms that c by (auto simp: splitDueDate_def Let_def split: if_splits)
qed

lemma splitDueDate_trimmed:
  assumes "splitDueDate lc r = (t, d)"
  shows "\<exists>s. t = trim s" and "\<And>x. d = Some x \<Longrightarrow> \<exists>s. x = trim s"
  using assms by (auto simp: splitDueDate_def Let_def split: if_splits)

lemma parseCommand_add_cases:
  assumes "parseCommand lc message = CmdAdd t d"
  obtains d0 where "splitDueDate lc (stripKeyword (trim message)) = (t, d0)"
    and "t \<noteq> []"
    and "d = (case d0 of None \<Rightarrow> None | Some y \<Rightarrow> if y = [] then None else Some y)"
  using assms by (auto simp: parseCommand_def Let_def split: if_splits prod.splits)

lemma startsWith_Cons: "startsWith l (x # p) \<Longrightarrow> l \<noteq> [] \<and> hd l = x"
  by (auto simp: startsWith_def prefix_def)

lemma js_Cons: "js (c # cs) = of_char c # js cs"
  by (simp add: js_def)

lemma isAddCommand_hd: "isAddCommand l \<Longrightarrow> l \<noteq> [] \<and> (hd l = 97 \<or> hd l = 99)"
  unfolding isAddCommand_def js_Cons
  by (auto dest!: startsWith_Cons)

lemma isListCommand_hd: "isListCommand l \<Longrightarrow> l \<noteq> [] \<and> (hd l = 108 \<or> hd l = 115)"
  unfolding isListCommand_def js_Cons
  by (auto dest!: startsWith_Cons)

lemma add_not_list: "isAddCommand l \<Longrightarrow> \<not> isListCommand l"
  using isAddCommand_hd [of l] isListCommand_hd [of l] by auto

lemma lastIndexFrom_cases:
  "(lastIndexFrom s pat n = - 1 \<and> (\<forall>j\<le>n. \<not> prefix pat (drop j s))) \<or>
   (\<exists>i\<le>n. lastIndexFrom s pat n = int i \<and> prefix pat (drop i s) \<and>
      (\<forall>j. i < j \<and> j \<le> n \<longrightarrow> \<not> prefix pat (drop j s)))"
proof (induction n)
  case 0
  show ?case by auto
next
  case (Suc n)
  show ?case
  proof (cases "prefix pat (drop (Suc n) s)")
    case True
    then show ?thesis by auto
  next
    case False
    from Suc show ?thesis
    proof
      assume a: "lastIndexFrom s pat n = - 1 \<and> (\<forall>j\<le>n. \<not> prefix pat (drop j s))"
      with False have "\<forall>j\<le>Suc n. \<not> prefix pat (drop j s)"
        by (auto simp: le_Suc_eq)
      with a False show ?thesis by simp
    next
      assume "\<exists>i\<le>n. lastIndexFrom s pat n = int i \<and> prefix pat (drop i s) \<and>
        (\<forall>j. i < j \<and> j \<le> n \<longrightarrow> \<not> prefix pat (drop j s))"
      then obtain i where i: "i \<le> n" "lastIndexFrom s pat n = int i" "prefix pat (drop i s)"
        "\<forall>j. i < j \<and> j \<le> n \<longrightarrow> \<not> prefix pat (drop j s)" by blast
      with False have "\<forall>j. i < j \<and> j \<le> Suc n \<longrightarrow> \<not> prefix pat (drop j s)"
        by (auto simp: le_Suc_eq)
      with i False show ?thesis by auto
    qed
  qed
qed

lemma lastIndexOf_cases:
  assumes "pat \<noteq> []"
  shows "(lastIndexOf s pat = - 1 \<and> (\<forall>j. \<not> prefix pat (drop j s))) \<or>
   (\<exists>i. lastIndexOf s pat = int i \<and> prefix pat (drop i s) \<and>
      (\<forall>j>i. \<not> prefix pat (drop j s)))"
proof -
  let ?k = "lastIndexFrom s pat (length s)"
  have far: "\<not> prefix pat (drop j s)" if "length s < j" for j
    using that assms by simp
  have "(?k = - 1 \<and> (\<forall>j. \<not> prefix pat (drop j s))) \<or>
   (\<exists>i. ?k = int i \<and> prefix pat (drop i s) \<and> (\<forall>j>i. \<not> prefix pat (drop j s)))"
    using lastIndexFrom_cases [of s pat "length s"]
  proof
    assume "?k = - 1 \<and> (\<forall>j\<le>length s. \<not> prefix pat (drop j s))"
    with far show ?thesis by (metis not_le)
  next
    assume "\<exists>i\<le>length s. ?k = int i \<and> prefix pat (drop i s) \<and>
      (\<forall>j. i < j \<and> j \<le> length s \<longrightarrow> \<not> prefix pat (drop j s))"
    then obtain i where i: "?k = int i" "prefix pat (drop i s)"
      "\<forall>j. i < j \<and> j \<le> length s \<longrightarrow> \<not> prefix pat (drop j s)" by blast
    with far have "\<forall>j>i. \<not> prefix pat (drop j s)" by (metis not_le)
    with i show ?thesis by blast
  qed
  then show ?thesis by (simp add: lastIndexOf_def)
qed

lemma dropWhile_keep: "xs \<noteq> [] \<Longrightarrow> \<not> P (hd xs) \<Longrightarrow> dropWhile P xs = xs"
  by (cases xs) simp_all

lemma trim_trim: "trim (trim s) = trim s"
proof (cases "trim s = []")
  case True
  have "trim [] = []" by (simp add: trim_def)
  with True show ?thesis by (simp only:)
next
  case False
  from trim_ends [OF False] have h: "\<not> isWhiteSpace (hd (trim s))" and l: "\<not> isWhiteSpace (last (trim s))"
    by simp_all
  from False h have 1: "dropWhile isWhiteSpace (trim s) = trim s"
    by (rule dropWhile_keep)
  from False l have 2: "dropWhile isWhiteSpace (rev (trim s)) = rev (trim s)"
    by (intro dropWhile_keep) (simp_all add: hd_rev)
  show ?thesis
    unfolding trim_def [of "trim s"] 1 2 by simp
qed


lemma keyword_nonempty: "js '' by '' \<noteq> []" "js '' on '' \<noteq> []"
  by (simp_all add: js_def)

lemma splitDueDate_last_keyword:
  assumes "lc r = map f r"
  shows "((\<forall>j. \<not> prefix (js '' by '') (drop j (map f r)) \<and>
               \<not> prefix (js '' on '') (drop j (map f r))) \<and>
          splitDueDate lc r = (trim r, None)) \<or>
         (\<exists>i. (prefix (js '' by '') (drop i (map f r)) \<or>
                prefix (js '' on '') (drop i (map f r))) \<and>
              (\<forall>j>i. \<not> prefix (js '' by '') (drop j (map f r)) \<and>
                      \<not> prefix (js '' on '') (drop j (map f r))) \<and>
              splitDueDate lc r = (trim (take i r), Some (trim (drop (i + 4) r))))"
proof -
  let ?l = "map f r"
  let ?by = "lastIndexOf ?l (js '' by '')"
  let ?on = "lastIndexOf ?l (js '' on '')"
  have sp: "splitDueDate lc r =
      (if max ?by ?on \<ge> 0
       then (trim (take (nat (max ?by ?on)) r), Some (trim (drop (nat (max ?by ?on) + 4) r)))
       else (trim r, None))"
    by (simp add: splitDueDate_def assms Let_def substring_def substringFrom_def clampIndex_def
        trim_trim nat_add_distrib min_def max_def take_all drop_all)
  from lastIndexOf_cases [OF keyword_nonempty(1), of ?l]
    lastIndexOf_cases [OF keyword_nonempty(2), of ?l]
  show ?thesis
  proof (elim disjE exE conjE)
    assume "?by = - 1" "?on = - 1" "\<forall>j. \<not> prefix (js '' by '') (drop j ?l)"
      "\<forall>j. \<not> prefix (js '' on '') (drop j ?l)"
    then show ?thesis by (simp add: sp)
  next
    fix i
    assume "?by = - 1" "?on = int i" "\<forall>j. \<not> prefix (js '' by '') (drop j ?l)"
      "prefix (js '' on '') (drop i ?l)" "\<forall>j>i. \<not> prefix (js '' on '') (drop j ?l)"
    then show ?thesis by (intro disjI2 exI [of _ i]) (simp add: sp)
  next
    fix i
    assume "?by = int i" "?on = - 1" "\<forall>j. \<not> prefix (js '' on '') (drop j ?l)"
      "prefix (js '' by '') (drop i ?l)" "\<forall>j>i. \<not> prefix (js '' by '') (drop j ?l)"
    then show ?thesis by (intro disjI2 exI [of _ i]) (simp add: sp)
  next
    fix i k
    assume a: "?by = int i" "?on = int k"
      "prefix (js '' by '') (drop i ?l)" "\<forall>j>i. \<not> prefix (js '' by '') (drop j ?l)"
      "prefix (js '' on '') (drop k ?l)" "\<forall>j>k. \<not> prefix (js '' on '') (drop j ?l)"
    show ?thesis
    proof (cases "i \<le> k")
      case True
      with a show ?thesis by (intro disjI2 exI [of _ k]) (simp add: sp max_def)
    next
      case False
      with a show ?thesis by (intro disjI2 exI [of _ i]) (simp add: sp max_def)
    qed
  qed
qed

lemma toLowerCaseBasic_unitwise:
  "304 \<notin> set s \<Longrightarrow> toLowerCaseBasic s = map (\<lambda>c. hd (lowerUnit c)) s"
  by (induction s) (auto simp: toLowerCaseBasic_def lowerUnit_def)

text \<open>
  Where lower-casing works code unit by code unit (\<open>splitDueDate_last_keyword\<close>; the
  builtin does on strings without U+0130, \<open>toLowerCaseBasic_unitwise\<close>), the extraction splits
  the remainder at the last keyword: without an occurrence of \<open> by \<close> or \<open> on \<close> in the lower-cased
  remainder there is no due date and the title is the trimmed remainder; otherwise the
  remainder is cut at the last position \<open>i\<close> where one of the two occurs, the title is the
  trimmed text before \<open>i\<close> and the due date the trimmed text after the four characters.
\<close>

text \<open>
  C5, at the message \<open>add \<close>, U+0130, \<open> by Friday\<close>.  After the keyword the remainder
  is U+0130 followed by \<open> by Friday\<close>, and the text after its \<open> by \<close> is \<open>Friday\<close>.
  Lower-casing turns U+0130 into two code units, so the index found in the lower-cased
  copy lies one place to the right in the remainder, and the parser returns the due date
  \<open>riday\<close>.
\<close>

theorem parseCommand_dotted_capital_I:
  "stripKeyword (trim (js ''add '' @ [304] @ js '' by Friday'')) = [304] @ js '' by Friday'' \<and>
   parseCommand toLowerCaseBasic (js ''add '' @ [304] @ js '' by Friday'') =
     CmdAdd [304] (Some (js ''riday''))"
  by (simp add: parse_eval)

text \<open>
  C6: the title and the due date of an add command are slices of the remainder, which is
  the end of the trimmed message as it was typed; no character of them comes from the
  lower-cased copy, whatever the lower-casing function does.
\<close>

theorem parseCommand_slices_original:
  assumes "parseCommand lc message = CmdAdd t d"
  shows "sublist t (stripKeyword (trim message)) \<and>
         (\<forall>x. d = Some x \<longrightarrow> sublist x (stripKeyword (trim message))) \<and>
         suffix (stripKeyword (trim message)) (trim message)"
proof -
  from assms obtain d0 where sp: "splitDueDate lc (stripKeyword (trim message)) = (t, d0)"
    and d: "d = (case d0 of None \<Rightarrow> None | Some y \<Rightarrow> if y = [] then None else Some y)"
    by (rule parseCommand_add_cases)
  have "sublist x (stripKeyword (trim message))" if "d = Some x" for x
  proof -
    from that d have "d0 = Some x" by (auto split: option.splits if_splits)
    then show ?thesis by (rule splitDueDate_sublist(2) [OF sp])
  qed
  with splitDueDate_sublist(1) [OF sp] stripKeyword_suffix show ?thesis by blast
qed

theorem parseCommand_slices_original_witness:
  "parseCommand toLowerCaseBasic (js ''  ADD Task  Buy Milk ON Monday BY Friday  '') =
     CmdAdd (js ''Buy Milk ON Monday'') (Some (js ''Friday'')) \<and>
   sublist (js ''Buy Milk ON Monday'')
     (stripKeyword (trim (js ''  ADD Task  Buy Milk ON Monday BY Friday  ''))) \<and>
   sublist (js ''Friday'')
     (stripKeyword (trim (js ''  ADD Task  Buy Milk ON Monday BY Friday  ''))) \<and>
   suffix (stripKeyword (trim (js ''  ADD Task  Buy Milk ON Monday BY Friday  '')))
     (trim (js ''  ADD Task  Buy Milk ON Monday BY Friday  ''))"
proof -
  have h: "parseCommand toLowerCaseBasic (js ''  ADD Task  Buy Milk ON Monday BY Friday  '') =
     CmdAdd (js ''Buy Milk ON Monday'') (Some (js ''Friday''))"
    by (simp add: parse_eval)
  from h parseCommand_slices_original [OF h] show ?thesis by blast
qed

text \<open>
  C7: the parser returns a command for every message and every lower-casing function (it
  has no failing step), and the command is \<open>none\<close> exactly when the normalised message
  matches neither the list patterns nor the add patterns, or matches an add pattern and
  leaves an empty title.
\<close>

theorem parseCommand_none_iff:
  "parseCommand lc message = CmdNone \<longleftrightarrow>
     (\<not> isListCommand (lc (trim message)) \<and> \<not> isAddCommand (lc (trim message))) \<or>
     (isAddCommand (lc (trim message)) \<and>
      fst (splitDueDate lc (stripKeyword (trim message))) = [])"
proof (cases "isListCommand (lc (trim message))")
  case True
  with add_not_list [of "lc (trim message)"] show ?thesis
    by (auto simp: parseCommand_def Let_def)
next
  case False
  then show ?thesis
    by (cases "splitDueDate lc (stripKeyword (trim message))")
       (simp add: parseCommand_def Let_def)
qed

theorem parseCommand_none_iff_witness:
  "\<not> isListCommand (toLowerCaseBasic (trim (js ''add ''))) \<and>
   \<not> isAddCommand (toLowerCaseBasic (trim (js ''add ''))) \<and>
   parseCommand toLowerCaseBasic (js ''add '') = CmdNone \<and>
   \<not> isListCommand (toLowerCaseBasic (trim (js ''hello there''))) \<and>
   \<not> isAddCommand (toLowerCaseBasic (trim (js ''hello there''))) \<and>
   parseCommand toLowerCaseBasic (js ''hello there'') = CmdNone \<and>
   \<not> isListCommand (toLowerCaseBasic (trim [])) \<and>
   \<not> isAddCommand (toLowerCaseBasic (trim [])) \<and>
   parseCommand toLowerCaseBasic [] = CmdNone"
proof -
  have a: "\<not> isListCommand (toLowerCaseBasic (trim (js ''add ''))) \<and>
           \<not> isAddCommand (toLowerCaseBasic (trim (js ''add '')))"
    by (simp add: parse_eval)
  have b: "\<not> isListCommand (toLowerCaseBasic (trim (js ''hello there''))) \<and>
           \<not> isAddCommand (toLowerCaseBasic (trim (js ''hello there'')))"
    by (simp add: parse_eval)
  have c: "\<not> isListCommand (toLowerCaseBasic (trim [])) \<and>
           \<not> isAddCommand (toLowerCaseBasic (trim []))"
    by (simp add: parse_eval)
  from a b c parseCommand_none_iff [of toLowerCaseBasic "js ''add ''"]
    parseCommand_none_iff [of toLowerCaseBasic "js ''hello there''"]
    parseCommand_none_iff [of toLowerCaseBasic "[]"]
  show ?thesis by blast
qed

text \<open>
  C10: the title of an add command is not empty and neither begins nor ends with white
  space, and so is its due date when it has one; in particular the due date is never the
  empty string.
\<close>

theorem parseCommand_add_trimmed:
  assumes "parseCommand lc message = CmdAdd t d"
  shows "t \<noteq> [] \<and> \<not> isWhiteSpace (hd t) \<and> \<not> isWhiteSpace (last t) \<and>
         (\<forall>x. d = Some x \<longrightarrow>
            x \<noteq> [] \<and> \<not> isWhiteSpace (hd x) \<and> \<not> isWhiteSpace (last x))"
proof -
  from assms obtain d0 where sp: "splitDueDate lc (stripKeyword (trim message)) = (t, d0)"
    and t: "t \<noteq> []"
    and d: "d = (case d0 of None \<Rightarrow> None | Some y \<Rightarrow> if y = [] then None else Some y)"
    by (rule parseCommand_add_cases)
  from splitDueDate_trimmed(1) [OF sp] obtain s where "t = trim s" by blast
  with t trim_ends [of s] have 1: "\<not> isWhiteSpace (hd t) \<and> \<not> isWhiteSpace (last t)" by simp
  have 2: "x \<noteq> [] \<and> \<not> isWhiteSpace (hd x) \<and> \<not> isWhiteSpace (last x)" if "d = Some x" for x
  proof -
    from that d have d0: "d0 = Some x" and x: "x \<noteq> []"
      by (auto split: option.splits if_splits)
    from splitDueDate_trimmed(2) [OF sp d0] obtain s' where "x = trim s'" by blast
    with x trim_ends [of s'] show ?thesis by simp
  qed
  from t 1 2 show ?thesis by blast
qed

theorem parseCommand_add_trimmed_witness:
  "parseCommand toLowerCaseBasic (js ''create  pay rent   on   the 1st '') =
     CmdAdd (js ''pay rent'') (Some (js ''the 1st'')) \<and>
   js ''pay rent'' \<noteq> [] \<and> \<not> isWhiteSpace (hd (js ''pay rent'')) \<and>
   \<not> isWhiteSpace (last (js ''pay rent'')) \<and>
   js ''the 1st'' \<noteq> [] \<and> \<not> isWhiteSpace (hd (js ''the 1st'')) \<and>
   \<not> isWhiteSpace (last (js ''the 1st''))"
proof -
  have h: "parseCommand toLowerCaseBasic (js ''create  pay rent   on   the 1st '') =
     CmdAdd (js ''pay rent'') (Some (js ''the 1st''))"
    by (simp add: parse_eval)
  from h parseCommand_add_trimmed [OF h] show ?thesis by blast
qed

section \<open>Properties of the task store\<close>

lemmas worker_eval =
  fetch_def handleChat_def stub_fetch_def TaskManager_fetch_def chatRequest_def addRequest_def
  listRequest_def storeUrl_def getProp_def optProp_def basicRuntime_def pathnameBasic_def
  endsWith_def suffix_def failingEnv_def failingAI_def emptyNamespace_def emptyStorage_def
  storedTasks_def Response_json_def listReply_def

lemma js_neq:
  "js ''GET'' \<noteq> js ''POST''"
  "js ''title'' \<noteq> js ''dueDate''"
  "js ''dueDate'' \<noteq> js ''title''"
  "js ''/api/chat'' \<noteq> js ''/''"
  by (simp_all add: js_def)

lemma storedTasks_update: "storedTasks (st(js ''tasks'' \<mapsto> ts)) = ts"
  by (simp add: storedTasks_def)

lemma add_appends:
  assumes "endsWith (URL_pathname rt (storeUrl userId (js ''add''))) (js ''/add'')"
  shows "TaskManager_fetch rt uuid now (addRequest userId ttl due) st =
     Inr (\<lparr>status = 201, headers = jsonHeaders,
            body = Json (taskJson (newTask (uuid, now, ttl, due)))\<rparr>,
          st(js ''tasks'' \<mapsto> storedTasks st @ [newTask (uuid, now, ttl, due)]))"
proof (cases due)
  case None
  with assms show ?thesis
    by (simp add: TaskManager_fetch_def addRequest_def getProp_def Let_def js_neq)
next
  case (Some d)
  with assms show ?thesis
    by (simp add: TaskManager_fetch_def addRequest_def getProp_def Let_def js_neq)
qed

lemma list_returns:
  assumes "endsWith (URL_pathname rt (storeUrl userId (js ''list''))) (js ''/list'')"
  shows "TaskManager_fetch rt uuid now (listRequest userId) st =
     Inr (\<lparr>status = 200, headers = jsonHeaders,
            body = Json (JArr (map taskJson (storedTasks st)))\<rparr>, st)"
  using assms by (simp add: TaskManager_fetch_def listRequest_def Let_def js_neq)

lemma addAll_appends:
  assumes "endsWith (URL_pathname rt (storeUrl userId (js ''add''))) (js ''/add'')"
  shows "\<exists>st'. addAll rt userId xs st = Inr st' \<and>
               storedTasks st' = storedTasks st @ map newTask xs"
proof (induction xs arbitrary: st)
  case Nil
  show ?case by simp
next
  case (Cons x xs)
  obtain uuid now ttl due where x: "x = (uuid, now, ttl, due)" by (cases x)
  let ?st1 = "st(js ''tasks'' \<mapsto> storedTasks st @ [newTask x])"
  from Cons.IH [of ?st1] obtain st' where
    "addAll rt userId xs ?st1 = Inr st'" and "storedTasks st' = storedTasks ?st1 @ map newTask xs"
    by blast
  then show ?case
    by (simp add: x add_appends [OF assms] storedTasks_update)
qed

lemma basic_paths:
  "endsWith (URL_pathname basicRuntime (storeUrl (js ''alice'') (js ''add''))) (js ''/add'')"
  "endsWith (URL_pathname basicRuntime (storeUrl (js ''alice'') (js ''list''))) (js ''/list'')"
  "endsWith (URL_pathname basicRuntime (storeUrl (js ''bob'') (js ''list''))) (js ''/list'')"
  by (simp_all add: basicRuntime_def pathnameBasic_def storeUrl_def endsWith_def js_def
      suffix_def Let_def)

text \<open>
  C1: on one storage, where the two store URLs of the user have paths ending in \<open>/add\<close>
  and \<open>/list\<close>, the adds all succeed, each puts its task at the end of the stored list, and
  the list request then answers 200 with the tasks that were there followed by the new
  ones in the order of the adds, leaving the storage as it is.  From an empty storage
  these are the \<open>n\<close> new tasks, with the titles given.
\<close>

theorem store_add_then_list:
  assumes "endsWith (URL_pathname rt (storeUrl userId (js ''add''))) (js ''/add'')"
    and "endsWith (URL_pathname rt (storeUrl userId (js ''list''))) (js ''/list'')"
  shows "\<exists>st'. addAll rt userId xs st = Inr st' \<and>
           storedTasks st' = storedTasks st @ map newTask xs \<and>
           map title (map newTask xs) = map titleOf xs \<and>
           TaskManager_fetch rt uuid now (listRequest userId) st' =
             Inr (\<lparr>status = 200, headers = jsonHeaders,
                    body = Json (JArr (map taskJson (storedTasks st @ map newTask xs)))\<rparr>, st')"
proof -
  from addAll_appends [OF assms(1)] obtain st' where
    a: "addAll rt userId xs st = Inr st'" and
    b: "storedTasks st' = storedTasks st @ map newTask xs" by blast
  have c: "map title (map newTask xs) = map titleOf xs"
    by (induction xs) auto
  from list_returns [OF assms(2), of uuid now st'] b
  have "TaskManager_fetch rt uuid now (listRequest userId) st' =
             Inr (\<lparr>status = 200, headers = jsonHeaders,
                    body = Json (JArr (map taskJson (storedTasks st @ map newTask xs)))\<rparr>, st')"
    by simp
  with a b c show ?thesis by blast
qed

theorem store_add_then_list_witness:
  "endsWith (URL_pathname basicRuntime (storeUrl (js ''alice'') (js ''add''))) (js ''/add'') \<and>
   endsWith (URL_pathname basicRuntime (storeUrl (js ''alice'') (js ''list''))) (js ''/list'') \<and>
   (\<exists>st'. addAll basicRuntime (js ''alice'')
             [(js ''id-1'', js ''t1'', js ''A'', None), (js ''id-2'', js ''t2'', js ''B'', None)]
             emptyStorage = Inr st' \<and>
          map title (storedTasks st') = [js ''A'', js ''B''] \<and>
          TaskManager_fetch basicRuntime (js ''id-3'') (js ''t3'') (listRequest (js ''alice'')) st' =
            Inr (\<lparr>status = 200, headers = jsonHeaders,
                   body = Json (JArr
                     [taskJson \<lparr>taskId = js ''id-1'', title = js ''A'', dueDate = None,
                                createdAt = js ''t1''\<rparr>,
                      taskJson \<lparr>taskId = js ''id-2'', title = js ''B'', dueDate = None,
                                createdAt = js ''t2''\<rparr>])\<rparr>, st')) \<and>
   (\<exists>st'. addAll basicRuntime (js ''alice'') [] emptyStorage = Inr st' \<and>
          TaskManager_fetch basicRuntime (js ''id-3'') (js ''t3'') (listRequest (js ''alice'')) st' =
            Inr (\<lparr>status = 200, headers = jsonHeaders, body = Json (JArr [])\<rparr>, st'))"
proof -
  have e: "storedTasks emptyStorage = []"
    by (simp add: storedTasks_def emptyStorage_def)
  from store_add_then_list [OF basic_paths(1,2),
      of "[(js ''id-1'', js ''t1'', js ''A'', None), (js ''id-2'', js ''t2'', js ''B'', None)]"
         emptyStorage "js ''id-3''" "js ''t3''"]
  have 1: "\<exists>st'. addAll basicRuntime (js ''alice'')
             [(js ''id-1'', js ''t1'', js ''A'', None), (js ''id-2'', js ''t2'', js ''B'', None)]
             emptyStorage = Inr st' \<and>
          map title (storedTasks st') = [js ''A'', js ''B''] \<and>
          TaskManager_fetch basicRuntime (js ''id-3'') (js ''t3'') (listRequest (js ''alice'')) st' =
            Inr (\<lparr>status = 200, headers = jsonHeaders,
                   body = Json (JArr
                     [taskJson \<lparr>taskId = js ''id-1'', title = js ''A'', dueDate = None,
                                createdAt = js ''t1''\<rparr>,
                      taskJson \<lparr>taskId = js ''id-2'', title = js ''B'', dueDate = None,
                                createdAt = js ''t2''\<rparr>])\<rparr>, st')"
    by (auto simp: e)
  from store_add_then_list [OF basic_paths(1,2), of "[]" emptyStorage "js ''id-3''" "js ''t3''"]
  have 2: "\<exists>st'. addAll basicRuntime (js ''alice'') [] emptyStorage = Inr st' \<and>
          TaskManager_fetch basicRuntime (js ''id-3'') (js ''t3'') (listRequest (js ''alice'')) st' =
            Inr (\<lparr>status = 200, headers = jsonHeaders, body = Json (JArr [])\<rparr>, st')"
    by (simp add: e)
  from basic_paths(1,2) 1 2 show ?thesis by blast
qed

text \<open>
  C9, as amended: a POST request whose path ends in \<open>/add\<close> and whose body is a JSON
  object is answered with 201 and the created task, which is put at the end of the stored
  list, provided the conversions \<^verbatim>\<open>String(title)\<close> and, for a truthy due date,
  \<^verbatim>\<open>String(dueDate)\<close> yield strings.  The title is that conversion of the \<open>title\<close>
  member (of \<^verbatim>\<open>undefined\<close> when there is none), the due date is absent when the member is
  falsy, no test is made on the title, and of the URL only the end of the path is looked at.
\<close>

theorem store_add_unvalidated:
  assumes "reqMethod request = js ''POST''"
    and "endsWith (URL_pathname rt (url request)) (js ''/add'')"
    and "json request = Some (JObj members)"
    and "toStr (optProp (JObj members) (js ''title'')) = Inr t"
    and "truthy (optProp (JObj members) (js ''dueDate'')) \<longrightarrow>
           toStr (optProp (JObj members) (js ''dueDate'')) = Inr d"
  shows "TaskManager_fetch rt uuid now request st =
     (let task = \<lparr>taskId = uuid, title = t,
                  dueDate = (if truthy (optProp (JObj members) (js ''dueDate'')) then Some d
                             else None),
                  createdAt = now\<rparr>
      in Inr (\<lparr>status = 201, headers = jsonHeaders, body = Json (taskJson task)\<rparr>,
              st(js ''tasks'' \<mapsto> storedTasks st @ [task])))"
  using assms
  by (simp add: TaskManager_fetch_def optProp_def getProp_def Let_def)

theorem store_add_unvalidated_witness:
  "TaskManager_fetch basicRuntime (js ''id-1'') (js ''t1'')
     \<lparr>reqMethod = js ''POST'', url = js ''https://task/alice/add'',
      json = Some (JObj [(js ''dueDate'', JStr [])])\<rparr> emptyStorage =
   Inr (\<lparr>status = 201, headers = jsonHeaders,
          body = Json (taskJson \<lparr>taskId = js ''id-1'', title = js ''undefined'', dueDate = None,
                                 createdAt = js ''t1''\<rparr>)\<rparr>,
        emptyStorage(js ''tasks'' \<mapsto>
          [\<lparr>taskId = js ''id-1'', title = js ''undefined'', dueDate = None,
            createdAt = js ''t1''\<rparr>])) \<and>
   TaskManager_fetch basicRuntime (js ''id-2'') (js ''t2'')
     \<lparr>reqMethod = js ''POST'', url = js ''https://task/bob/add'',
      json = Some (JObj [(js ''title'', JStr [])])\<rparr> emptyStorage =
   Inr (\<lparr>status = 201, headers = jsonHeaders,
          body = Json (taskJson \<lparr>taskId = js ''id-2'', title = [], dueDate = None,
                                 createdAt = js ''t2''\<rparr>)\<rparr>,
        emptyStorage(js ''tasks'' \<mapsto>
          [\<lparr>taskId = js ''id-2'', title = [], dueDate = None, createdAt = js ''t2''\<rparr>]))"
proof -
  let ?r1 = "\<lparr>reqMethod = js ''POST'', url = js ''https://task/alice/add'',
      json = Some (JObj [(js ''dueDate'', JStr [])])\<rparr>"
  let ?r2 = "\<lparr>reqMethod = js ''POST'', url = js ''https://task/bob/add'',
      json = Some (JObj [(js ''title'', JStr [])])\<rparr>"
  have e: "storedTasks emptyStorage = []"
    by (simp add: storedTasks_def emptyStorage_def)
  have p1: "endsWith (URL_pathname basicRuntime (url ?r1)) (js ''/add'')"
    by (simp add: basicRuntime_def pathnameBasic_def endsWith_def js_def suffix_def Let_def)
  have p2: "endsWith (URL_pathname basicRuntime (url ?r2)) (js ''/add'')"
    by (simp add: basicRuntime_def pathnameBasic_def endsWith_def js_def suffix_def Let_def)
  have t1: "toStr (optProp (JObj [(js ''dueDate'', JStr [])]) (js ''title'')) = Inr (js ''undefined'')"
    by (simp add: optProp_def getProp_def js_neq)
  have d1: "truthy (optProp (JObj [(js ''dueDate'', JStr [])]) (js ''dueDate'')) \<longrightarrow>
            toStr (optProp (JObj [(js ''dueDate'', JStr [])]) (js ''dueDate'')) = Inr []"
    by (simp add: optProp_def getProp_def)
  have t2: "toStr (optProp (JObj [(js ''title'', JStr [])]) (js ''title'')) = Inr []"
    by (simp add: optProp_def getProp_def)
  have d2: "truthy (optProp (JObj [(js ''title'', JStr [])]) (js ''dueDate'')) \<longrightarrow>
            toStr (optProp (JObj [(js ''title'', JStr [])]) (js ''dueDate'')) = Inr []"
    by (simp add: optProp_def getProp_def js_neq)
  from store_add_unvalidated [of ?r1 basicRuntime, OF _ p1 _ t1 d1,
      of "js ''id-1''" "js ''t1''" emptyStorage]
    store_add_unvalidated [of ?r2 basicRuntime, OF _ p2 _ t2 d2,
      of "js ''id-2''" "js ''t2''" emptyStorage]
  show ?thesis
    by (simp add: e optProp_def getProp_def js_neq Let_def)
qed

theorem store_add_unvalidated_counterexample:
  "TaskManager_fetch basicRuntime (js ''id-1'') (js ''t1'')
     \<lparr>reqMethod = js ''POST'', url = js ''https://task/alice/add'',
      json = Some (JObj [(js ''title'', JObj [(js ''toString'', JNum (js ''1''))])])\<rparr>
     emptyStorage = Inl TypeError"
  by (simp add: worker_eval js_def Let_def)

section \<open>Properties of the Worker\<close>

lemma stub_fetch_other:
  "i \<noteq> j \<Longrightarrow> TASK_MANAGER (snd (stub_fetch rt uuid now i request env)) j = TASK_MANAGER env j"
  by (simp add: stub_fetch_def Let_def split: sum.splits prod.splits)

lemma handleChat_other:
  assumes "json request = Some b" and "getProp b (js ''userId'') = Inr (JStr x)"
    and "i \<noteq> IdFromName x"
  shows "TASK_MANAGER (snd (handleChat rt uuid now request env)) i = TASK_MANAGER env i"
proof -
  have s: "TASK_MANAGER (snd (stub_fetch rt uuid now (IdFromName x) r env)) i = TASK_MANAGER env i"
    for r
    using assms(3) by (simp add: stub_fetch_other)
  have p: "snd (case p of (Inl e, env') \<Rightarrow> (Inl e, env') | (Inr r, env') \<Rightarrow> (f r, env')) = snd p"
    for p :: "(exn + Response) \<times> Env" and f :: "Response \<Rightarrow> exn + Response"
    by (cases p) (auto split: sum.splits)
  have q: "snd (case p of (Inl e, env') \<Rightarrow> (Inl e, env')
                | (Inr r, env') \<Rightarrow>
                    (case g r of Inl e \<Rightarrow> (Inl e, env')
                     | Inr t \<Rightarrow> (case h t of Inl e \<Rightarrow> (Inl e, env') | Inr l \<Rightarrow> (k t l, env')))) = snd p"
    for p :: "(exn + Response) \<times> Env" and g :: "Response \<Rightarrow> exn + jsval"
      and h :: "jsval \<Rightarrow> exn + jsstring" and k :: "jsval \<Rightarrow> jsstring \<Rightarrow> exn + Response"
    by (cases p) (auto split: sum.splits)
  show ?thesis
    using assms(1,2)
    by (simp add: handleChat_def Let_def p q s split: sum.splits jsval.splits Command.splits)
qed

lemma fetch_other_user:
  assumes "json request = Some b" and "getProp b (js ''userId'') = Inr (JStr x)"
    and "i \<noteq> IdFromName x"
  shows "TASK_MANAGER (snd (fetch rt uuid now request env)) i = TASK_MANAGER env i"
proof -
  have "snd (case p of (Inr response, env') \<Rightarrow> (response, env')
                | (Inl err, env') \<Rightarrow> (r400, env')) = snd p"
    for p :: "(exn + Response) \<times> Env" and r400
    by (cases p) (auto split: sum.splits)
  then show ?thesis
    using handleChat_other [OF assms] by (simp add: fetch_def Let_def)
qed

lemma chat_request_facts:
  "reqMethod (chatRequest u m) = js ''POST''"
  "URL_pathname basicRuntime (url (chatRequest u m)) = js ''/api/chat''"
  "json (chatRequest u m) = Some (JObj [(js ''userId'', u), (js ''message'', m)])"
  "getProp (JObj [(js ''userId'', u), (js ''message'', m)]) (js ''userId'') = Inr u"
  "getProp (JObj [(js ''userId'', u), (js ''message'', m)]) (js ''message'') = Inr m"
  by (simp_all add: chatRequest_def basicRuntime_def pathnameBasic_def getProp_def js_def Let_def)

lemma list_request_served:
  assumes "reqMethod request = js ''GET''"
    and "endsWith (URL_pathname rt (url request)) (js ''/list'')"
  shows "TaskManager_fetch rt uuid now request st =
     Inr (\<lparr>status = 200, headers = jsonHeaders,
            body = Json (JArr (map taskJson (storedTasks st)))\<rparr>, st)"
  using assms by (simp add: TaskManager_fetch_def Let_def js_neq)

lemma stub_fetch_effects:
  "effects (snd (stub_fetch rt uuid now i request env)) = effects env @ [StubFetch i request]"
  by (simp add: stub_fetch_def Let_def split: sum.splits prod.splits)

lemma handleChat_effects:
  assumes "json request = Some b" and "getProp b (js ''userId'') = Inr (JStr x)"
  shows "\<exists>es. effects (snd (handleChat rt uuid now request env)) = effects env @ es \<and>
              (\<forall>i r. StubFetch i r \<in> set es \<longrightarrow> i = IdFromName x)"
proof -
  have s: "effects (snd (stub_fetch rt uuid now (IdFromName x) r env)) =
             effects env @ [StubFetch (IdFromName x) r]" for r
    by (rule stub_fetch_effects)
  have p: "snd (case p of (Inl e, env') \<Rightarrow> (Inl e, env') | (Inr r, env') \<Rightarrow> (f r, env')) = snd p"
    for p :: "(exn + Response) \<times> Env" and f :: "Response \<Rightarrow> exn + Response"
    by (cases p) (auto split: sum.splits)
  have q: "snd (case p of (Inl e, env') \<Rightarrow> (Inl e, env')
                | (Inr r, env') \<Rightarrow>
                    (case g r of Inl e \<Rightarrow> (Inl e, env')
                     | Inr t \<Rightarrow> (case h t of Inl e \<Rightarrow> (Inl e, env') | Inr l \<Rightarrow> (k t l, env')))) = snd p"
    for p :: "(exn + Response) \<times> Env" and g :: "Response \<Rightarrow> exn + jsval"
      and h :: "jsval \<Rightarrow> exn + jsstring" and k :: "jsval \<Rightarrow> jsstring \<Rightarrow> exn + Response"
    by (cases p) (auto split: sum.splits)
  show ?thesis
    using assms(1,2)
    by (simp add: handleChat_def Let_def p q s split: sum.splits jsval.splits Command.splits)
qed

lemma fetch_effects:
  assumes "json request = Some b" and "getProp b (js ''userId'') = Inr (JStr x)"
  shows "\<exists>es. effects (snd (fetch rt uuid now request env)) = effects env @ es \<and>
              (\<forall>i r. StubFetch i r \<in> set es \<longrightarrow> i = IdFromName x)"
proof -
  have "snd (case p of (Inr response, env') \<Rightarrow> (response, env')
                | (Inl err, env') \<Rightarrow> (r400, env')) = snd p"
    for p :: "(exn + Response) \<times> Env" and r400
    by (cases p) (auto split: sum.splits)
  then show ?thesis
    using handleChat_effects [OF assms] by (simp add: fetch_def Let_def)
qed

text \<open>
  C2: a chat request made for user \<open>x\<close>, whatever its message, leaves the storage of the
  store of every other user \<open>y\<close> as it was, and every request it sends to a store goes to
  the store whose identifier is derived from \<open>x\<close>; when the store of \<open>y\<close> held no task, a
  list request served by that store afterwards returns the empty list.
\<close>

theorem users_isolated:
  assumes "x \<noteq> y"
    and "json request = Some b"
    and "getProp b (js ''userId'') = Inr (JStr x)"
    and "storedTasks (TASK_MANAGER env (IdFromName y)) = []"
    and "reqMethod listReq = js ''GET''"
    and "endsWith (URL_pathname rt (url listReq)) (js ''/list'')"
  shows "TASK_MANAGER (snd (fetch rt uuid now request env)) (IdFromName y) =
           TASK_MANAGER env (IdFromName y) \<and>
         (\<exists>es. effects (snd (fetch rt uuid now request env)) = effects env @ es \<and>
               (\<forall>i r. StubFetch i r \<in> set es \<longrightarrow> i = IdFromName x)) \<and>
         fst (stub_fetch rt uuid' now' (IdFromName y) listReq
                (snd (fetch rt uuid now request env))) =
           Inr \<lparr>status = 200, headers = jsonHeaders, body = Json (JArr [])\<rparr>"
proof -
  let ?env1 = "snd (fetch rt uuid now request env)"
  from assms(1) have "IdFromName y \<noteq> IdFromName x" by simp
  from fetch_other_user [OF assms(2,3) this]
  have same: "TASK_MANAGER ?env1 (IdFromName y) = TASK_MANAGER env (IdFromName y)" .
  with assms(4) have empty: "storedTasks (TASK_MANAGER ?env1 (IdFromName y)) = []" by simp
  have "fst (stub_fetch rt uuid' now' (IdFromName y) listReq ?env1) =
          Inr \<lparr>status = 200, headers = jsonHeaders, body = Json (JArr [])\<rparr>"
    by (simp add: stub_fetch_def Let_def list_request_served [OF assms(5,6)] empty)
  with same fetch_effects [OF assms(2,3)] show ?thesis by blast
qed

theorem users_isolated_witness:
  "js ''alice'' \<noteq> js ''bob'' \<and>
   map title (storedTasks (TASK_MANAGER
       (snd (fetch basicRuntime (js ''id-1'') (js ''t1'')
          (chatRequest (JStr (js ''alice'')) (JStr (js ''add milk''))) failingEnv))
       (IdFromName (js ''alice'')))) = [js ''milk''] \<and>
   TASK_MANAGER
       (snd (fetch basicRuntime (js ''id-1'') (js ''t1'')
          (chatRequest (JStr (js ''alice'')) (JStr (js ''add milk''))) failingEnv))
       (IdFromName (js ''bob'')) = TASK_MANAGER failingEnv (IdFromName (js ''bob'')) \<and>
   fst (stub_fetch basicRuntime (js ''id-2'') (js ''t2'') (IdFromName (js ''bob''))
          (listRequest (js ''bob''))
          (snd (fetch basicRuntime (js ''id-1'') (js ''t1'')
             (chatRequest (JStr (js ''alice'')) (JStr (js ''add milk''))) failingEnv))) =
     Inr \<lparr>status = 200, headers = jsonHeaders, body = Json (JArr [])\<rparr> \<and>
   fst (fetch basicRuntime (js ''id-2'') (js ''t2'')
          (chatRequest (JStr (js ''bob'')) (JStr (js ''list'')))
          (snd (fetch basicRuntime (js ''id-1'') (js ''t1'')
             (chatRequest (JStr (js ''alice'')) (JStr (js ''add milk''))) failingEnv))) =
     \<lparr>status = 200, headers = jsonHeaders,
      body = Json (JObj [(js ''reply'', JStr (js ''You have no tasks.'')),
                         (js ''tasks'', JArr [])])\<rparr>"
proof -
  have 1: "js ''alice'' \<noteq> js ''bob''" by (simp add: js_def)
  have 4: "storedTasks (TASK_MANAGER failingEnv (IdFromName (js ''bob''))) = []"
    by (simp add: failingEnv_def emptyNamespace_def emptyStorage_def storedTasks_def)
  have 5: "reqMethod (listRequest (js ''bob'')) = js ''GET''"
    by (simp add: listRequest_def)
  have 6: "endsWith (URL_pathname basicRuntime (url (listRequest (js ''bob'')))) (js ''/list'')"
    using basic_paths(3) by (simp add: listRequest_def)
  have a: "map title (storedTasks (TASK_MANAGER
       (snd (fetch basicRuntime (js ''id-1'') (js ''t1'')
          (chatRequest (JStr (js ''alice'')) (JStr (js ''add milk''))) failingEnv))
       (IdFromName (js ''alice'')))) = [js ''milk'']"
    by (simp add: worker_eval parse_eval)
  have b: "fst (fetch basicRuntime (js ''id-2'') (js ''t2'')
          (chatRequest (JStr (js ''bob'')) (JStr (js ''list'')))
          (snd (fetch basicRuntime (js ''id-1'') (js ''t1'')
             (chatRequest (JStr (js ''alice'')) (JStr (js ''add milk''))) failingEnv))) =
     \<lparr>status = 200, headers = jsonHeaders,
      body = Json (JObj [(js ''reply'', JStr (js ''You have no tasks.'')),
                         (js ''tasks'', JArr [])])\<rparr>"
    by (simp add: worker_eval parse_eval)
  from users_isolated [where rt = basicRuntime and env = failingEnv
      and uuid = "js ''id-1''" and now = "js ''t1''" and uuid' = "js ''id-2''"
      and now' = "js ''t2''", OF 1 chat_request_facts(3,4) 4 5 6]
    1 a b
  show ?thesis by blast
qed

text \<open>
  C3, as amended: when the model call throws on a message with no command in it, the
  handler returns a response and the exception goes no further than the log.  The response
  carries the fixed unavailability text as its reply and the status 503, which is not a
  success status; no store is written.
\<close>

theorem chat_model_failure_degraded:
  assumes "reqMethod request = js ''POST''"
    and "URL_pathname rt (url request) = js ''/api/chat''"
    and "json request = Some b"
    and "getProp b (js ''userId'') = Inr (JStr uid)"
    and "getProp b (js ''message'') = Inr (JStr msg)"
    and "parseCommand (toLowerCase rt) msg = CmdNone"
    and "AI env MODEL [(js ''system'', SYSTEM_PROMPT), (js ''user'', msg)] = Inl err"
  shows "status (fst (fetch rt uuid now request env)) = 503 \<and>
         \<not> Response_ok (fst (fetch rt uuid now request env)) \<and>
         body (fst (fetch rt uuid now request env)) =
           Json (JObj [(js ''reply'', JStr UNAVAILABLE)]) \<and>
         TASK_MANAGER (snd (fetch rt uuid now request env)) = TASK_MANAGER env \<and>
         effects (snd (fetch rt uuid now request env)) =
           effects env @
           [AIRun MODEL [(js ''system'', SYSTEM_PROMPT), (js ''user'', msg)],
            ConsoleError (js ''AI model invocation failed'') err]"
  using assms by (simp add: fetch_def handleChat_def Let_def js_neq Response_ok_def)

lemma sample_chat_facts:
  "parseCommand (toLowerCase basicRuntime) (js ''hello there'') = CmdNone"
  "AI failingEnv MODEL [(js ''system'', SYSTEM_PROMPT), (js ''user'', js ''hello there'')] =
     Inl (ServiceError (js ''upstream unavailable''))"
  by (simp_all add: basicRuntime_def parse_eval failingEnv_def failingAI_def)

theorem chat_model_failure_degraded_witness:
  "parseCommand (toLowerCase basicRuntime) (js ''hello there'') = CmdNone \<and>
   AI failingEnv MODEL [(js ''system'', SYSTEM_PROMPT), (js ''user'', js ''hello there'')] =
     Inl (ServiceError (js ''upstream unavailable'')) \<and>
   status (fst (fetch basicRuntime (js ''id-1'') (js ''t1'')
      (chatRequest (JStr (js ''alice'')) (JStr (js ''hello there''))) failingEnv)) = 503 \<and>
   body (fst (fetch basicRuntime (js ''id-1'') (js ''t1'')
      (chatRequest (JStr (js ''alice'')) (JStr (js ''hello there''))) failingEnv)) =
     Json (JObj [(js ''reply'', JStr UNAVAILABLE)]) \<and>
   TASK_MANAGER (snd (fetch basicRuntime (js ''id-1'') (js ''t1'')
      (chatRequest (JStr (js ''alice'')) (JStr (js ''hello there''))) failingEnv)) =
     TASK_MANAGER failingEnv"
  using chat_model_failure_degraded [where rt = basicRuntime and env = failingEnv
      and request = "chatRequest (JStr (js ''alice'')) (JStr (js ''hello there''))"
      and uuid = "js ''id-1''" and now = "js ''t1''",
      OF chat_request_facts sample_chat_facts] sample_chat_facts
  by blast

theorem chat_model_failure_counterexample:
  "status (fst (fetch basicRuntime (js ''id-1'') (js ''t1'')
       (chatRequest (JStr (js ''alice'')) (JStr (js ''hello there''))) failingEnv)) = 503 \<and>
   \<not> Response_ok (fst (fetch basicRuntime (js ''id-1'') (js ''t1'')
       (chatRequest (JStr (js ''alice'')) (JStr (js ''hello there''))) failingEnv))"
  by (simp add: worker_eval parse_eval Response_ok_def)

text \<open>
  C4: a POST to \<open>/api/chat\<close> with a text user identifier and a text message that parses
  to \<open>none\<close>, for which the model call throws, is answered with status 503 and the JSON body
  whose \<open>reply\<close> is the fixed unavailability text.  The handler returns this response: it
  has no way to throw.
\<close>

theorem chat_model_failure_503:
  assumes "reqMethod request = js ''POST''"
    and "URL_pathname rt (url request) = js ''/api/chat''"
    and "json request = Some b"
    and "getProp b (js ''userId'') = Inr (JStr uid)"
    and "getProp b (js ''message'') = Inr (JStr msg)"
    and "parseCommand (toLowerCase rt) msg = CmdNone"
    and "AI env MODEL [(js ''system'', SYSTEM_PROMPT), (js ''user'', msg)] = Inl err"
  shows "fst (fetch rt uuid now request env) =
           \<lparr>status = 503, headers = jsonHeaders,
            body = Json (JObj [(js ''reply'', JStr UNAVAILABLE)])\<rparr>"
  using assms by (simp add: fetch_def handleChat_def Let_def js_neq)

theorem chat_model_failure_503_witness:
  "parseCommand (toLowerCase basicRuntime) (js ''hello there'') = CmdNone \<and>
   AI failingEnv MODEL [(js ''system'', SYSTEM_PROMPT), (js ''user'', js ''hello there'')] =
     Inl (ServiceError (js ''upstream unavailable'')) \<and>
   fst (fetch basicRuntime (js ''id-1'') (js ''t1'')
      (chatRequest (JStr (js ''alice'')) (JStr (js ''hello there''))) failingEnv) =
     \<lparr>status = 503, headers = jsonHeaders,
      body = Json (JObj [(js ''reply'', JStr UNAVAILABLE)])\<rparr>"
  using chat_model_failure_503 [where rt = basicRuntime and env = failingEnv
      and request = "chatRequest (JStr (js ''alice'')) (JStr (js ''hello there''))"
      and uuid = "js ''id-1''" and now = "js ''t1''",
      OF chat_request_facts sample_chat_facts] sample_chat_facts
  by blast

text \<open>
  C8: a POST to \<open>/api/chat\<close> whose body is not JSON, or is JSON without a text \<open>userId\<close>
  or without a text \<open>message\<close>, is answered with status 400, and the bindings are after the
  call what they were before it: no request has gone to a store, the model has not been
  called, and every task list is unchanged.
\<close>

theorem chat_malformed_400:
  assumes "reqMethod request = js ''POST''"
    and "URL_pathname rt (url request) = js ''/api/chat''"
    and "\<not> (\<exists>b u m. json request = Some b \<and> getProp b (js ''userId'') = Inr (JStr u) \<and>
               getProp b (js ''message'') = Inr (JStr m))"
  shows "status (fst (fetch rt uuid now request env)) = 400 \<and>
         snd (fetch rt uuid now request env) = env"
proof (cases "json request")
  case None
  with assms(1,2) show ?thesis
    by (simp add: fetch_def handleChat_def Let_def js_neq)
next
  case (Some b)
  show ?thesis
  proof (cases "getProp b (js ''userId'')")
    case (Inl e)
    with Some assms(1,2) show ?thesis
      by (simp add: fetch_def handleChat_def Let_def js_neq)
  next
    case u: (Inr userId)
    show ?thesis
    proof (cases "getProp b (js ''message'')")
      case (Inl e)
      with u Some assms(1,2) show ?thesis
        by (simp add: fetch_def handleChat_def Let_def js_neq)
    next
      case m: (Inr message)
      from assms(3) Some u m have n: "\<not> (\<exists>x y. userId = JStr x \<and> message = JStr y)" by simp
      from u m Some have "handleChat rt uuid now request env =
          (Inr \<lparr>status = 400, headers = [], body = Text (js ''Invalid request body'')\<rparr>, env)"
        using n unfolding handleChat_def by (cases userId; cases message) simp_all
      with assms(1,2) show ?thesis
        by (simp add: fetch_def Let_def js_neq)
    qed
  qed
qed

theorem chat_malformed_400_witness:
  "status (fst (fetch basicRuntime (js ''id-1'') (js ''t1'')
      (chatRequest (JNum (js ''42'')) (JStr (js ''add milk''))) failingEnv)) = 400 \<and>
   snd (fetch basicRuntime (js ''id-1'') (js ''t1'')
      (chatRequest (JNum (js ''42'')) (JStr (js ''add milk''))) failingEnv) = failingEnv \<and>
   status (fst (fetch basicRuntime (js ''id-1'') (js ''t1'')
      (chatRequest (JStr (js ''alice'')) JUndefined) failingEnv)) = 400 \<and>
   snd (fetch basicRuntime (js ''id-1'') (js ''t1'')
      (chatRequest (JStr (js ''alice'')) JUndefined) failingEnv) = failingEnv"
proof -
  have 1: "\<not> (\<exists>b u m. json (chatRequest (JNum (js ''42'')) (JStr (js ''add milk''))) = Some b \<and>
               getProp b (js ''userId'') = Inr (JStr u) \<and>
               getProp b (js ''message'') = Inr (JStr m))"
    by (simp add: chat_request_facts)
  have 2: "\<not> (\<exists>b u m. json (chatRequest (JStr (js ''alice'')) JUndefined) = Some b \<and>
               getProp b (js ''userId'') = Inr (JStr u) \<and>
               getProp b (js ''message'') = Inr (JStr m))"
    by (simp add: chat_request_facts)
  from chat_malformed_400 [where uuid = "js ''id-1''" and now = "js ''t1''" and env = failingEnv,
      OF chat_request_facts(1,2) 1]
    chat_malformed_400 [where uuid = "js ''id-1''" and now = "js ''t1''" and env = failingEnv,
      OF chat_request_facts(1,2) 2]
  show ?thesis by blast
qed

end
